theory Spec2Isabelle
  imports Complex_Main "HOL-Library.Sublist"
begin

section \<open>Loan eligibility and credit scoring engine\<close>

text \<open>
  A shallow embedding of the scoring core of the application: the financial profile
  (\<^verbatim>\<open>services/UserFinancialProfile.js\<close>), the scoring strategies and their factory
  (\<^verbatim>\<open>services/ScoringStrategy.js\<close>), the score calculator
  (\<^verbatim>\<open>services/CreditScoreCalculator.js\<close>) and the decision service
  (\<^verbatim>\<open>services/LoanDecisionService.js\<close>).

  A JavaScript number is a double; it is modelled by the \<^typ>\<open>real\<close> it denotes. The
  four arithmetic operations round their exact result to the nearest double, comparisons
  are exact, \<^verbatim>\<open>Math.floor\<close> is \<^term>\<open>floor\<close>, \<^verbatim>\<open>Math.min\<close> and
  \<^verbatim>\<open>Math.max\<close> are \<^term>\<open>min\<close> and \<^term>\<open>max\<close>. Neither \<^verbatim>\<open>NaN\<close> nor the
  infinities are values, and a result is rounded to 53 significant bits at every
  magnitude: overflow and the subnormal numbers are left out. A thrown exception is the
  left summand of the result of the function that throws.
\<close>

subsection \<open>Exceptions and strings\<close>

datatype js_error =
    TypeError   \<comment> \<open>calling a member that is \<^verbatim>\<open>undefined\<close>\<close>
  | Error string

definition lower_char :: "char \<Rightarrow> char" where
  "lower_char c =
     (let n = (of_char c :: nat) in if 65 \<le> n \<and> n \<le> 90 then char_of (n + 32) else c)"

text \<open>\<^verbatim>\<open>String.prototype.toLowerCase\<close>, on the ASCII letters.\<close>

definition toLowerCase :: "string \<Rightarrow> string" where
  "toLowerCase s = map lower_char s"

subsection \<open>Numbers\<close>

text \<open>
  \<open>round_even\<close> is the nearest integer, the even one of two that are equally near;
  \<open>binade a\<close> is the \<open>k\<close> with \<open>2\<^sup>k \<le> a < 2\<^sup>k\<^sup>+\<^sup>1\<close> for a positive \<open>a\<close>;
  \<open>fl x\<close> is the double nearest to \<open>x\<close>: \<open>x\<close> rounded to a multiple of
  \<open>2\<^sup>k\<^sup>-\<^sup>5\<^sup>2\<close>.
\<close>

definition pow2 :: "int \<Rightarrow> real" where
  "pow2 e = (if 0 \<le> e then 2 ^ nat e else 1 / 2 ^ nat (- e))"

definition round_even :: "real \<Rightarrow> int" where
  "round_even x =
     (let f = \<lfloor>x\<rfloor>; d = x - of_int f
      in if d < 1 / 2 then f else if 1 / 2 < d then f + 1
         else if even f then f else f + 1)"

function expo_up :: "real \<Rightarrow> int" where
  "expo_up x = (if 2 \<le> x then expo_up (x / 2) + 1 else 0)"
  by pat_completeness auto
termination
proof (relation "measure (\<lambda>x. nat \<lfloor>x\<rfloor>)")
  show "wf (measure (\<lambda>x::real. nat \<lfloor>x\<rfloor>))" by simp
next
  fix x :: real
  assume x: "2 \<le> x"
  then have "x / 2 \<le> x - 1" by simp
  then have "\<lfloor>x / 2\<rfloor> \<le> \<lfloor>x - 1\<rfloor>" by (rule floor_mono)
  then have "\<lfloor>x / 2\<rfloor> < \<lfloor>x\<rfloor>" by simp
  moreover from x have "0 < \<lfloor>x\<rfloor>" by simp
  ultimately show "(x / 2, x) \<in> measure (\<lambda>x. nat \<lfloor>x\<rfloor>)" by simp
qed

function expo_down :: "real \<Rightarrow> int" where
  "expo_down x = (if 0 < x \<and> x < 1 then expo_down (2 * x) - 1 else 0)"
  by pat_completeness auto
termination
proof (relation "measure (\<lambda>x. nat \<lceil>1 / x\<rceil>)")
  show "wf (measure (\<lambda>x::real. nat \<lceil>1 / x\<rceil>))" by simp
next
  fix x :: real
  assume x: "0 < x \<and> x < 1"
  then have y: "1 < 1 / x" by simp
  then have c: "2 \<le> \<lceil>1 / x\<rceil>" by linarith
  have "1 / x \<le> of_int \<lceil>1 / x\<rceil>" by (rule le_of_int_ceiling)
  then have "1 / (2 * x) \<le> of_int \<lceil>1 / x\<rceil> / 2" by simp
  also from c have "\<dots> \<le> of_int (\<lceil>1 / x\<rceil> - 1)" by simp
  finally have "\<lceil>1 / (2 * x)\<rceil> \<le> \<lceil>1 / x\<rceil> - 1" by (rule ceiling_le)
  with c x show "(2 * x, x) \<in> measure (\<lambda>x. nat \<lceil>1 / x\<rceil>)" by simp
qed

declare expo_up.simps [simp del] expo_down.simps [simp del]

definition binade :: "real \<Rightarrow> int" where
  "binade a = (if 1 \<le> a then expo_up a else expo_down a)"

definition fl :: "real \<Rightarrow> real" where
  "fl x =
     (if x = 0 then 0
      else let e = binade \<bar>x\<bar> - 52 in of_int (round_even (x / pow2 e)) * pow2 e)"

definition js_add :: "real \<Rightarrow> real \<Rightarrow> real" where
  "js_add a b = fl (a + b)"

definition js_sub :: "real \<Rightarrow> real \<Rightarrow> real" where
  "js_sub a b = fl (a - b)"

definition js_mul :: "real \<Rightarrow> real \<Rightarrow> real" where
  "js_mul a b = fl (a * b)"

definition js_div :: "real \<Rightarrow> real \<Rightarrow> real" where
  "js_div a b = fl (a / b)"

subsection \<open>UserFinancialProfile\<close>

record UserFinancialProfile =
  monthlyIncome :: real
  monthlyExpenses :: real
  existingDebts :: real
  age :: real
  employmentType :: string
  employmentYears :: real
  requestedLoanAmount :: real

text \<open>
  The argument of the constructor is an object any of whose properties may be missing;
  \<^verbatim>\<open>x || d\<close> replaces a missing, zero or empty \<^verbatim>\<open>x\<close> by \<^verbatim>\<open>d\<close>.
\<close>

record profile_data =
  data_monthlyIncome :: "real option"
  data_monthlyExpenses :: "real option"
  data_existingDebts :: "real option"
  data_age :: "real option"
  data_employmentType :: "string option"
  data_employmentYears :: "real option"
  data_requestedLoanAmount :: "real option"

definition or_zero :: "real option \<Rightarrow> real" where
  "or_zero x = (case x of None \<Rightarrow> 0 | Some v \<Rightarrow> v)"

definition or_string :: "string option \<Rightarrow> string \<Rightarrow> string" where
  "or_string x d = (case x of None \<Rightarrow> d | Some s \<Rightarrow> if s = [] then d else s)"

definition new_UserFinancialProfile :: "profile_data \<Rightarrow> UserFinancialProfile" where
  "new_UserFinancialProfile data =
     \<lparr> monthlyIncome = or_zero (data_monthlyIncome data),
       monthlyExpenses = or_zero (data_monthlyExpenses data),
       existingDebts = or_zero (data_existingDebts data),
       age = or_zero (data_age data),
       employmentType = or_string (data_employmentType data) ''unemployed'',
       employmentYears = or_zero (data_employmentYears data),
       requestedLoanAmount = or_zero (data_requestedLoanAmount data) \<rparr>"

definition calculateDTI :: "UserFinancialProfile \<Rightarrow> real" where
  "calculateDTI this =
     (if monthlyIncome this = 0 then 100
      else
        let totalMonthlyDebt = js_add (monthlyExpenses this) (js_div (existingDebts this) 12);
            dti = js_mul (js_div totalMonthlyDebt (monthlyIncome this)) 100
        in min dti 100)"

definition calculateDisposableIncome :: "UserFinancialProfile \<Rightarrow> real" where
  "calculateDisposableIncome this =
     (let monthlyDebtPayment = js_div (existingDebts this) 12;
          disposableIncome =
            js_sub (js_sub (monthlyIncome this) (monthlyExpenses this)) monthlyDebtPayment
      in max disposableIncome 0)"

definition calculateSavingsRate :: "UserFinancialProfile \<Rightarrow> real" where
  "calculateSavingsRate this =
     (if monthlyIncome this = 0 then 0
      else
        let disposableIncome = calculateDisposableIncome this;
            savingsRate = js_mul (js_div disposableIncome (monthlyIncome this)) 100
        in max savingsRate 0)"

definition calculateLoanToIncomeRatio :: "UserFinancialProfile \<Rightarrow> real" where
  "calculateLoanToIncomeRatio this =
     (let annualIncome = js_mul (monthlyIncome this) 12
      in if annualIncome = 0 then 0 else js_div (requestedLoanAmount this) annualIncome)"

definition getEmploymentStabilityScore :: "UserFinancialProfile \<Rightarrow> real" where
  "getEmploymentStabilityScore this =
     (let t = toLowerCase (employmentType this);
          baseScore =
            (if t = ''permanent'' then 80
             else if t = ''contract'' then 60
             else if t = ''self-employed'' then 50
             else if t = ''unemployed'' then 0
             else 40);
          yearsBonus = min (js_mul (employmentYears this) 2) 20
      in min (js_add baseScore yearsBonus) 100)"

definition getAgeRiskScore :: "UserFinancialProfile \<Rightarrow> real" where
  "getAgeRiskScore this =
     (if age this < 21 then 70
      else if age this < 25 then 50
      else if age this < 30 then 30
      else if age this < 50 then 10
      else if age this < 60 then 20
      else if age this < 65 then 40
      else 60)"

record validation =
  isValid :: bool
  errors :: "string list"

text \<open>
  \<^verbatim>\<open>validate\<close> starts from the empty array and pushes one message per violated rule,
  rule after rule; \<open>errs\<^sub>k\<close> is the array after the \<open>k\<close>-th rule.
\<close>

definition validate :: "UserFinancialProfile \<Rightarrow> validation" where
  "validate this =
     (let errs0 = [];
          errs1 = (if monthlyIncome this \<le> 0
                   then errs0 @ [''Monthly income must be greater than 0''] else errs0);
          errs2 = (if monthlyExpenses this < 0
                   then errs1 @ [''Monthly expenses cannot be negative''] else errs1);
          errs3 = (if existingDebts this < 0
                   then errs2 @ [''Existing debts cannot be negative''] else errs2);
          errs4 = (if age this < 18
                   then errs3 @ [''Age must be at least 18''] else errs3);
          errs5 = (if age this > 100
                   then errs4 @ [''Please enter a valid age''] else errs4);
          errs6 = (if employmentYears this < 0
                   then errs5 @ [''Employment years cannot be negative''] else errs5);
          errs7 = (if requestedLoanAmount this \<le> 0
                   then errs6 @ [''Requested loan amount must be greater than 0''] else errs6)
      in \<lparr> isValid = (length errs7 = 0), errors = errs7 \<rparr>)"

text \<open>The seven rules of \<^verbatim>\<open>validate\<close>, each with its message, in the order of the checks.\<close>

definition validation_rules :: "UserFinancialProfile \<Rightarrow> (bool \<times> string) list" where
  "validation_rules p =
     [ (monthlyIncome p \<le> 0, ''Monthly income must be greater than 0''),
       (monthlyExpenses p < 0, ''Monthly expenses cannot be negative''),
       (existingDebts p < 0, ''Existing debts cannot be negative''),
       (age p < 18, ''Age must be at least 18''),
       (age p > 100, ''Please enter a valid age''),
       (employmentYears p < 0, ''Employment years cannot be negative''),
       (requestedLoanAmount p \<le> 0, ''Requested loan amount must be greater than 0'') ]"

definition getFinancialHealthSummary :: "UserFinancialProfile \<Rightarrow> string" where
  "getFinancialHealthSummary this =
     (let dti = calculateDTI this;
          savingsRate = calculateSavingsRate this
      in if dti < 20 \<and> savingsRate > 20 then ''Excellent financial health''
         else if dti < 36 \<and> savingsRate > 10 then ''Good financial health''
         else if dti < 50 then ''Fair financial health''
         else ''Poor financial health - high debt burden'')"

text \<open>The applicant of the first scenario of the specification.\<close>

definition scenario1 :: UserFinancialProfile where
  "scenario1 =
     \<lparr> monthlyIncome = 5000, monthlyExpenses = 3000, existingDebts = 10000, age = 35,
       employmentType = ''permanent'', employmentYears = 5, requestedLoanAmount = 50000 \<rparr>"

subsection \<open>Scoring strategies\<close>

text \<open>
  A strategy receives an object and uses nine of its members: six methods without
  arguments, which it calls, and three properties, which it reads. A member the object
  does not have is \<^verbatim>\<open>undefined\<close>, here \<^term>\<open>None\<close>; a method that is there is
  given by the number it returns.
\<close>

record profile_object =
  getTotalIncome :: "real option"
  getDebtToIncomeRatio :: "real option"
  getSavingsToIncomeRatio :: "real option"
  getDisposableIncome :: "real option"
  getEmploymentStability :: "real option"
  getNetWorth :: "real option"
  employmentStatus :: "string option"
  yearsAtJob :: "real option"
  age_property :: "real option"

text \<open>
  An instance of class \<^verbatim>\<open>UserFinancialProfile\<close> has the seven properties its constructor
  sets and the methods \<^verbatim>\<open>calculateDTI\<close>, \<^verbatim>\<open>calculateDisposableIncome\<close>,
  \<^verbatim>\<open>calculateSavingsRate\<close>, \<^verbatim>\<open>calculateLoanToIncomeRatio\<close>,
  \<^verbatim>\<open>getEmploymentStabilityScore\<close>, \<^verbatim>\<open>getAgeRiskScore\<close>, \<^verbatim>\<open>validate\<close>,
  \<^verbatim>\<open>toJSON\<close> and \<^verbatim>\<open>getFinancialHealthSummary\<close>. Of the nine members a strategy
  uses it has \<^verbatim>\<open>age\<close> alone.
\<close>

definition as_object :: "UserFinancialProfile \<Rightarrow> profile_object" where
  "as_object p =
     \<lparr> getTotalIncome = None, getDebtToIncomeRatio = None, getSavingsToIncomeRatio = None,
       getDisposableIncome = None, getEmploymentStability = None, getNetWorth = None,
       employmentStatus = None, yearsAtJob = None, age_property = Some (age p) \<rparr>"

text \<open>Calling a member: \<^verbatim>\<open>undefined()\<close> throws a \<^verbatim>\<open>TypeError\<close>.\<close>

definition call_method :: "real option \<Rightarrow> js_error + real" where
  "call_method m = (case m of None \<Rightarrow> Inl TypeError | Some v \<Rightarrow> Inr v)"

definition and_then :: "js_error + 'a \<Rightarrow> ('a \<Rightarrow> js_error + 'b) \<Rightarrow> js_error + 'b" where
  "and_then r f = (case r of Inl e \<Rightarrow> Inl e | Inr v \<Rightarrow> f v)"

text \<open>
  Comparing a property with a number: \<^verbatim>\<open>undefined\<close> converts to \<^verbatim>\<open>NaN\<close>, and every
  comparison with \<^verbatim>\<open>NaN\<close> is false. \<^verbatim>\<open>undefined === 'text'\<close> is false.
\<close>

definition num_ge :: "real option \<Rightarrow> real \<Rightarrow> bool" where
  "num_ge x k = (case x of None \<Rightarrow> False | Some v \<Rightarrow> v \<ge> k)"

definition num_le :: "real option \<Rightarrow> real \<Rightarrow> bool" where
  "num_le x k = (case x of None \<Rightarrow> False | Some v \<Rightarrow> v \<le> k)"

definition num_lt :: "real option \<Rightarrow> real \<Rightarrow> bool" where
  "num_lt x k = (case x of None \<Rightarrow> False | Some v \<Rightarrow> v < k)"

definition str_eq :: "string option \<Rightarrow> string \<Rightarrow> bool" where
  "str_eq x s = (case x of None \<Rightarrow> False | Some v \<Rightarrow> v = s)"

definition Math_floor :: "real \<Rightarrow> real" where
  "Math_floor x = of_int \<lfloor>x\<rfloor>"

definition clamp_score :: "real \<Rightarrow> real" where
  "clamp_score score = min (max score 0) 100"

definition Conservative_calculateScore :: "profile_object \<Rightarrow> js_error + real" where
  "Conservative_calculateScore profile =
     (let score = 0 in
      and_then (call_method (getTotalIncome profile)) (\<lambda>income.
      let score = js_add score
            (if income \<ge> 100000 then 30 else if income \<ge> 50000 then 20
             else if income \<ge> 30000 then 10 else if income \<ge> 15000 then 5 else 0) in
      and_then (call_method (getDebtToIncomeRatio profile)) (\<lambda>dti.
      let score = js_add score
            (if dti < 20 then 25 else if dti < 30 then 20
             else if dti < 40 then 10 else if dti < 50 then 5 else 0) in
      and_then (call_method (getSavingsToIncomeRatio profile)) (\<lambda>savingsRatio.
      let score = js_add score
            (if savingsRatio \<ge> 30 then 20 else if savingsRatio \<ge> 20 then 15
             else if savingsRatio \<ge> 10 then 10 else if savingsRatio \<ge> 5 then 5 else 0) in
      and_then (call_method (getEmploymentStability profile)) (\<lambda>stability.
      let score = js_add score (Math_floor (js_mul stability (fl 0.15)));
          score = js_add score
            (if num_ge (age_property profile) 35 \<and> num_le (age_property profile) 55 then 10
             else if num_ge (age_property profile) 25 \<and> num_lt (age_property profile) 60 then 7
             else if num_ge (age_property profile) 21 then 3 else 0)
      in Inr (clamp_score score))))))"

definition Standard_calculateScore :: "profile_object \<Rightarrow> js_error + real" where
  "Standard_calculateScore profile =
     (let score = 0 in
      and_then (call_method (getTotalIncome profile)) (\<lambda>income.
      let score = js_add score
            (if income \<ge> 80000 then 25 else if income \<ge> 40000 then 18
             else if income \<ge> 20000 then 12 else if income \<ge> 10000 then 6 else 0) in
      and_then (call_method (getDebtToIncomeRatio profile)) (\<lambda>dti.
      let score = js_add score
            (if dti < 25 then 30 else if dti < 35 then 22
             else if dti < 45 then 15 else if dti < 60 then 8 else 0) in
      and_then (call_method (getDisposableIncome profile)) (\<lambda>disposable.
      let score = js_add score
            (if disposable \<ge> 30000 then 20 else if disposable \<ge> 15000 then 15
             else if disposable \<ge> 5000 then 10 else if disposable > 0 then 5 else 0) in
      and_then (call_method (getEmploymentStability profile)) (\<lambda>stability.
      let score = js_add score (Math_floor (js_mul stability (fl 0.15))) in
      and_then (call_method (getNetWorth profile)) (\<lambda>netWorth.
      let score = js_add score
            (if netWorth \<ge> 500000 then 10 else if netWorth \<ge> 200000 then 8
             else if netWorth \<ge> 50000 then 5 else if netWorth > 0 then 3 else 0)
      in Inr (clamp_score score)))))))"

definition Aggressive_calculateScore :: "profile_object \<Rightarrow> js_error + real" where
  "Aggressive_calculateScore profile =
     (let score = 20 in
      and_then (call_method (getTotalIncome profile)) (\<lambda>income.
      let score = js_add score
            (if income \<ge> 50000 then 20 else if income \<ge> 25000 then 15
             else if income \<ge> 15000 then 10 else if income \<ge> 8000 then 5 else 0) in
      and_then (call_method (getDebtToIncomeRatio profile)) (\<lambda>dti.
      let score = js_add score
            (if dti < 35 then 25 else if dti < 50 then 18
             else if dti < 70 then 10 else if dti < 90 then 5 else 0) in
      and_then (call_method (getDisposableIncome profile)) (\<lambda>disposable.
      let score = js_add score
            (if disposable \<ge> 10000 then 15 else if disposable \<ge> 5000 then 12
             else if disposable \<ge> 2000 then 8 else if disposable > 0 then 5 else 0);
          score = js_add score
            (if str_eq (employmentStatus profile) ''employed'' then 15
             else if str_eq (employmentStatus profile) ''self-employed'' then 10 else 0);
          score = js_add score
            (if num_ge (yearsAtJob profile) 3 then 10
             else if num_ge (yearsAtJob profile) 1 then 7
             else if num_ge (yearsAtJob profile) 0.5 then 4 else 0);
          score = js_add score
            (if num_ge (age_property profile) 25 \<and> num_le (age_property profile) 60 then 15
             else if num_ge (age_property profile) 21 then 10 else 0)
      in Inr (clamp_score score)))))"

text \<open>
  The classes of \<^verbatim>\<open>ScoringStrategy.js\<close>: the abstract base, whose two methods throw,
  and the three strategies that extend it.
\<close>

datatype scoring_strategy =
    ScoringStrategy
  | ConservativeScoringStrategy
  | StandardScoringStrategy
  | AggressiveScoringStrategy

fun calculateScore_of :: "scoring_strategy \<Rightarrow> profile_object \<Rightarrow> js_error + real" where
  "calculateScore_of ScoringStrategy profile =
     Inl (Error ''calculateScore must be implemented by subclass'')"
| "calculateScore_of ConservativeScoringStrategy profile = Conservative_calculateScore profile"
| "calculateScore_of StandardScoringStrategy profile = Standard_calculateScore profile"
| "calculateScore_of AggressiveScoringStrategy profile = Aggressive_calculateScore profile"

fun getName_of :: "scoring_strategy \<Rightarrow> js_error + string" where
  "getName_of ScoringStrategy = Inl (Error ''getName must be implemented by subclass'')"
| "getName_of ConservativeScoringStrategy = Inr ''Conservative''"
| "getName_of StandardScoringStrategy = Inr ''Standard''"
| "getName_of AggressiveScoringStrategy = Inr ''Aggressive''"

definition implemented :: "scoring_strategy list" where
  "implemented =
     [ConservativeScoringStrategy, StandardScoringStrategy, AggressiveScoringStrategy]"

subsection \<open>ScoringStrategyFactory\<close>

definition getStrategy :: "real \<Rightarrow> scoring_strategy" where
  "getStrategy loanAmount =
     (if loanAmount \<ge> 500000 then ConservativeScoringStrategy
      else if loanAmount \<ge> 100000 then StandardScoringStrategy
      else AggressiveScoringStrategy)"

definition getStrategyByName :: "string \<Rightarrow> scoring_strategy" where
  "getStrategyByName strategyName =
     (let n = toLowerCase strategyName
      in if n = ''conservative'' then ConservativeScoringStrategy
         else if n = ''standard'' then StandardScoringStrategy
         else if n = ''aggressive'' then AggressiveScoringStrategy
         else StandardScoringStrategy)"

definition getAllStrategies :: "scoring_strategy list" where
  "getAllStrategies =
     [ConservativeScoringStrategy, StandardScoringStrategy, AggressiveScoringStrategy]"

text \<open>Equality of two names up to the case of their ASCII letters.\<close>

definition same_name :: "string \<Rightarrow> string \<Rightarrow> bool" where
  "same_name a b \<longleftrightarrow> list_all2 (\<lambda>x y. lower_char x = lower_char y) a b"

subsection \<open>Formatted text\<close>

text \<open>
  A string that the code builds from literals and numbers is kept as the list of its
  parts: a number printed by \<^verbatim>\<open>toFixed(d)\<close>, by \<^verbatim>\<open>toLocaleString()\<close> or by
  the conversion that \<^verbatim>\<open>+\<close> applies stays a number, tagged with the way it is printed.
\<close>

datatype piece =
    Lit string
  | Fixed nat real
  | Locale real
  | Number real

type_synonym js_text = "piece list"

definition lit :: "string \<Rightarrow> js_text" where
  "lit s = [Lit s]"

text \<open>Whether a word occurs in one of the literal parts of a text.\<close>

fun piece_mentions :: "string \<Rightarrow> piece \<Rightarrow> bool" where
  "piece_mentions w (Lit s) = sublist w s"
| "piece_mentions w (Fixed d x) = False"
| "piece_mentions w (Locale x) = False"
| "piece_mentions w (Number x) = False"

definition mentions :: "js_text \<Rightarrow> string \<Rightarrow> bool" where
  "mentions t w = list_ex (piece_mentions w) t"

subsection \<open>CreditScoreCalculator\<close>

text \<open>
  The calculator holds a strategy object and uses two of its methods. A strategy of
  \<^verbatim>\<open>ScoringStrategy.js\<close> is such an object: it is handed the profile as it is.
\<close>

record strategy_instance =
  strategy_calculateScore :: "UserFinancialProfile \<Rightarrow> js_error + real"
  strategy_getName :: "js_error + string"

definition instance_of :: "scoring_strategy \<Rightarrow> strategy_instance" where
  "instance_of st =
     \<lparr> strategy_calculateScore = (\<lambda>profile. calculateScore_of st (as_object profile)),
       strategy_getName = getName_of st \<rparr>"

text \<open>
  \<^verbatim>\<open>CreditScoreCalculator.js\<close> and \<^verbatim>\<open>LoanDecisionService.js\<close> import the names
  \<^verbatim>\<open>ConservativeStrategy\<close>, \<^verbatim>\<open>BalancedStrategy\<close>, \<^verbatim>\<open>AggressiveStrategy\<close> and
  \<^verbatim>\<open>AIBasedStrategy\<close> from \<^verbatim>\<open>ScoringStrategy.js\<close>, which exports
  \<^verbatim>\<open>AggressiveScoringStrategy\<close>, \<^verbatim>\<open>ConservativeScoringStrategy\<close>,
  \<^verbatim>\<open>ScoringStrategy\<close>, \<^verbatim>\<open>ScoringStrategyFactory\<close> and
  \<^verbatim>\<open>StandardScoringStrategy\<close>. None of the four imported names is exported, so each
  of them is bound to \<^verbatim>\<open>undefined\<close>, and \<^verbatim>\<open>new\<close> applied to it throws a
  \<^verbatim>\<open>TypeError\<close>. An imported binding is a class, given by the instance that
  \<^verbatim>\<open>new\<close> makes of it, or \<^verbatim>\<open>undefined\<close>.
\<close>

type_synonym imported_class = "strategy_instance option"




definition AIBasedStrategy :: imported_class where
  "AIBasedStrategy = None"

definition new_instance :: "imported_class \<Rightarrow> js_error + strategy_instance" where
  "new_instance c = (case c of None \<Rightarrow> Inl TypeError | Some s \<Rightarrow> Inr s)"

record CreditScoreCalculator =
  strategy :: strategy_instance

text \<open>
  The constructor: \<^verbatim>\<open>this.strategy = strategy || new AIBasedStrategy()\<close>, where the
  argument may be left out.
\<close>

definition new_CreditScoreCalculator ::
  "strategy_instance option \<Rightarrow> js_error + CreditScoreCalculator" where
  "new_CreditScoreCalculator given =
     (case given of
        Some s \<Rightarrow> Inr \<lparr> strategy = s \<rparr>
      | None \<Rightarrow> and_then (new_instance AIBasedStrategy) (\<lambda>s. Inr \<lparr> strategy = s \<rparr>))"

definition setStrategy :: "CreditScoreCalculator \<Rightarrow> strategy_instance \<Rightarrow> CreditScoreCalculator" where
  "setStrategy this s = this\<lparr>strategy := s\<rparr>"

definition getRiskLevel :: "real \<Rightarrow> string" where
  "getRiskLevel score =
     (if score \<ge> 750 then ''Very Low''
      else if score \<ge> 700 then ''Low''
      else if score \<ge> 650 then ''Moderate''
      else if score \<ge> 600 then ''High''
      else ''Very High'')"

definition getScoreRating :: "real \<Rightarrow> string" where
  "getScoreRating score =
     (if score \<ge> 800 then ''Exceptional''
      else if score \<ge> 740 then ''Very Good''
      else if score \<ge> 670 then ''Good''
      else if score \<ge> 580 then ''Fair''
      else ''Poor'')"

text \<open>Every caller passes an array of three thresholds.\<close>

definition getImpactLevel :: "real \<Rightarrow> real \<times> real \<times> real \<Rightarrow> bool \<Rightarrow> string" where
  "getImpactLevel v thresholds lowerIsBetter =
     (case thresholds of (t0, t1, t2) \<Rightarrow>
        if lowerIsBetter then
          (if v < t0 then ''Positive'' else if v < t1 then ''Neutral'' else ''Negative'')
        else
          (if v > t2 then ''Positive'' else if v > t1 then ''Neutral'' else ''Negative''))"

definition getAgeImpact :: "real \<Rightarrow> string" where
  "getAgeImpact a =
     (if a \<ge> 30 \<and> a \<le> 50 then ''Positive''
      else if (a \<ge> 25 \<and> a < 30) \<or> (a > 50 \<and> a \<le> 60) then ''Neutral''
      else ''Negative'')"

definition getApprovalProbability :: "real \<Rightarrow> real" where
  "getApprovalProbability score =
     (if score \<ge> 750 then 95
      else if score \<ge> 700 then 85
      else if score \<ge> 650 then 70
      else if score \<ge> 600 then 50
      else if score \<ge> 550 then 30
      else 15)"

record breakdown_entry =
  entry_value :: js_text
  entry_label :: string
  impact :: string

record breakdown =
  breakdown_dti :: breakdown_entry
  breakdown_income :: breakdown_entry
  breakdown_employment :: breakdown_entry
  breakdown_savings :: breakdown_entry
  breakdown_age :: breakdown_entry

definition getScoreBreakdown :: "UserFinancialProfile \<Rightarrow> real \<Rightarrow> breakdown" where
  "getScoreBreakdown profile score =
     \<lparr> breakdown_dti =
         \<lparr> entry_value = [Fixed 2 (calculateDTI profile), Lit ''%''],
           entry_label = ''Debt-to-Income Ratio'',
           impact = getImpactLevel (calculateDTI profile) (20, 36, 50) True \<rparr>,
       breakdown_income =
         \<lparr> entry_value = [Lit ''$'', Locale (monthlyIncome profile)],
           entry_label = ''Monthly Income'',
           impact = getImpactLevel (monthlyIncome profile) (3000, 5000, 10000) False \<rparr>,
       breakdown_employment =
         \<lparr> entry_value = [Number (getEmploymentStabilityScore profile), Lit ''/100''],
           entry_label = ''Employment Stability'',
           impact = getImpactLevel (getEmploymentStabilityScore profile) (40, 60, 80) False \<rparr>,
       breakdown_savings =
         \<lparr> entry_value = [Fixed 2 (calculateSavingsRate profile), Lit ''%''],
           entry_label = ''Savings Rate'',
           impact = getImpactLevel (calculateSavingsRate profile) (5, 10, 20) False \<rparr>,
       breakdown_age =
         \<lparr> entry_value = [Number (age profile), Lit '' years''],
           entry_label = ''Age'',
           impact = getAgeImpact (age profile) \<rparr> \<rparr>"

text \<open>
  The two shapes of the object \<^verbatim>\<open>calculateScore\<close> returns:
  \<^verbatim>\<open>{success: false, errors, score}\<close> and
  \<^verbatim>\<open>{success: true, score, riskLevel, rating, strategy, breakdown}\<close>.
\<close>

datatype score_result =
    Failure (result_errors: "string list") (result_score: real)
  | success: Success (result_score: real) (result_riskLevel: string) (result_rating: string)
      (result_strategy: string) (result_breakdown: breakdown)

text \<open>
  A method of the calculator takes the calculator and returns it with its outcome:
  \<^verbatim>\<open>calculateScore\<close> assigns to no field, \<^verbatim>\<open>calculateAllScores\<close> calls
  \<^verbatim>\<open>setStrategy\<close>. An exception leaves the calculator as it was when it was thrown.
\<close>

definition calculateScore ::
  "CreditScoreCalculator \<Rightarrow> UserFinancialProfile
     \<Rightarrow> (js_error + score_result) \<times> CreditScoreCalculator" where
  "calculateScore this profile =
     (let validation = validate profile in
      if \<not> isValid validation then
        (Inr (Failure (errors validation) 300), this)
      else
        (and_then (strategy_calculateScore (strategy this) profile) (\<lambda>score.
           let riskLevel = getRiskLevel score;
               rating = getScoreRating score
           in and_then (strategy_getName (strategy this)) (\<lambda>name.
                Inr (Success score riskLevel rating name (getScoreBreakdown profile score)))),
         this))"

fun calculateAllScores_forEach ::
  "strategy_instance list \<Rightarrow> UserFinancialProfile \<Rightarrow> (string \<rightharpoonup> score_result)
     \<Rightarrow> CreditScoreCalculator
     \<Rightarrow> (js_error + (string \<rightharpoonup> score_result)) \<times> CreditScoreCalculator" where
  "calculateAllScores_forEach [] profile results this = (Inr results, this)"
| "calculateAllScores_forEach (s # rest) profile results this =
     (let this1 = setStrategy this s;
          call = calculateScore this1 profile;
          this2 = snd call
      in case fst call of
           Inl e \<Rightarrow> (Inl e, this2)
         | Inr result \<Rightarrow>
             (case strategy_getName s of
                Inl e \<Rightarrow> (Inl e, this2)
              | Inr name \<Rightarrow>
                  calculateAllScores_forEach rest profile (results(name \<mapsto> result)) this2))"


subsection \<open>LoanDecisionService\<close>

record LoanDecisionService =
  calculator :: CreditScoreCalculator

text \<open>
  The constructor: \<^verbatim>\<open>this.calculator = new CreditScoreCalculator(new AIBasedStrategy())\<close>.
\<close>

definition new_LoanDecisionService :: "js_error + LoanDecisionService" where
  "new_LoanDecisionService =
     and_then (new_instance AIBasedStrategy) (\<lambda>s.
     and_then (new_CreditScoreCalculator (Some s)) (\<lambda>c.
       Inr \<lparr> calculator = c \<rparr>))"

text \<open>The bytes of the two symbols that open the summary reason, in UTF-8.\<close>

definition check_mark :: string where
  "check_mark = [CHR 0xE2, CHR 0x9C, CHR 0x85]"

definition cross_mark :: string where
  "cross_mark = [CHR 0xE2, CHR 0x9D, CHR 0x8C]"

record explanation =
  reasons :: "js_text list"
  positiveFactors :: "string list"
  negativeFactors :: "string list"

definition push_positive :: "string \<Rightarrow> explanation \<Rightarrow> explanation" where
  "push_positive f e = e\<lparr>positiveFactors := positiveFactors e @ [f]\<rparr>"

definition push_negative :: "string \<Rightarrow> explanation \<Rightarrow> explanation" where
  "push_negative f e = e\<lparr>negativeFactors := negativeFactors e @ [f]\<rparr>"

definition push_reason :: "js_text \<Rightarrow> explanation \<Rightarrow> explanation" where
  "push_reason r e = e\<lparr>reasons := reasons e @ [r]\<rparr>"

definition unshift_reason :: "js_text \<Rightarrow> explanation \<Rightarrow> explanation" where
  "unshift_reason r e = e\<lparr>reasons := r # reasons e\<rparr>"

text \<open>The six analyses of \<^verbatim>\<open>generateExplanation\<close>, in the order of the source.\<close>

definition analyze_dti :: "UserFinancialProfile \<Rightarrow> explanation \<Rightarrow> explanation" where
  "analyze_dti profile e =
     (let dti = calculateDTI profile in
      if dti < 20 then
        push_reason (lit ''Your debt-to-income ratio is excellent (under 20%)'')
          (push_positive ''Excellent debt-to-income ratio'' e)
      else if dti < 36 then
        push_reason (lit ''Your debt-to-income ratio is within acceptable range'')
          (push_positive ''Good debt-to-income ratio'' e)
      else if dti < 50 then
        push_reason [Lit ''Your debt-to-income ratio is high ('', Fixed 1 dti, Lit ''%)'']
          (push_negative ''High debt-to-income ratio'' e)
      else
        push_reason [Lit ''Your debt-to-income ratio is too high ('', Fixed 1 dti, Lit ''%)'']
          (push_negative ''Very high debt burden'' e))"

definition analyze_income :: "UserFinancialProfile \<Rightarrow> explanation \<Rightarrow> explanation" where
  "analyze_income profile e =
     (if monthlyIncome profile > 5000 then
        push_reason (lit ''Your monthly income is strong'')
          (push_positive ''Strong income level'' e)
      else if monthlyIncome profile > 3000 then
        push_positive ''Adequate income level'' e
      else
        push_reason (lit ''Your income level may limit loan approval'')
          (push_negative ''Low income level'' e))"

definition analyze_employment :: "UserFinancialProfile \<Rightarrow> explanation \<Rightarrow> explanation" where
  "analyze_employment profile e =
     (let employmentScore = getEmploymentStabilityScore profile in
      if employmentScore > 70 then
        push_reason (lit ''Your employment is stable and secure'')
          (push_positive ''Stable employment history'' e)
      else if employmentScore > 50 then
        push_positive ''Acceptable employment status'' e
      else if employmentScore > 0 then
        push_reason (lit ''Your employment stability could be stronger'')
          (push_negative ''Limited employment stability'' e)
      else
        push_reason (lit ''Currently unemployed - major risk factor'')
          (push_negative ''No current employment'' e))"

definition analyze_savings :: "UserFinancialProfile \<Rightarrow> explanation \<Rightarrow> explanation" where
  "analyze_savings profile e =
     (let savingsRate = calculateSavingsRate profile in
      if savingsRate > 20 then
        push_reason (lit ''You demonstrate excellent financial discipline'')
          (push_positive ''Excellent savings discipline'' e)
      else if savingsRate > 10 then
        push_positive ''Good savings habits'' e
      else if savingsRate > 0 then
        push_negative ''Limited savings'' e
      else
        push_reason (lit ''No disposable income for savings - high risk'')
          (push_negative ''No savings capacity'' e))"

definition analyze_age :: "UserFinancialProfile \<Rightarrow> explanation \<Rightarrow> explanation" where
  "analyze_age profile e =
     (if age profile \<ge> 30 \<and> age profile \<le> 50 then
        push_positive ''Optimal age range for borrowing'' e
      else if age profile < 25 then
        push_negative ''Young borrower - limited credit history expected'' e
      else if age profile > 60 then
        push_negative ''Near retirement age - repayment concerns'' e
      else e)"

definition analyze_loan_amount :: "UserFinancialProfile \<Rightarrow> explanation \<Rightarrow> explanation" where
  "analyze_loan_amount profile e =
     (let loanToIncome = calculateLoanToIncomeRatio profile in
      if loanToIncome > 4 then
        push_reason (lit ''Requested loan amount is very high compared to your income'')
          (push_negative ''Loan amount too high relative to income'' e)
      else if loanToIncome > 3 then
        push_negative ''High loan-to-income ratio'' e
      else if loanToIncome < 2 then
        push_positive ''Reasonable loan amount requested'' e
      else e)"

definition final_reason :: "bool \<Rightarrow> js_text" where
  "final_reason approved_arg =
     (if approved_arg then
        lit (check_mark @ '' Loan APPROVED - Credit score meets minimum requirements'')
      else
        lit (cross_mark @ '' Loan DENIED - Credit score below minimum threshold (580)''))"

text \<open>The three empty arrays \<^verbatim>\<open>generateExplanation\<close> starts from.\<close>

definition empty_explanation :: explanation where
  "empty_explanation = \<lparr> reasons = [], positiveFactors = [], negativeFactors = [] \<rparr>"

definition generateExplanation ::
  "UserFinancialProfile \<Rightarrow> real \<Rightarrow> bool \<Rightarrow> explanation" where
  "generateExplanation profile score_arg approved_arg =
     (let e = empty_explanation;
          e = analyze_dti profile e;
          e = analyze_income profile e;
          e = analyze_employment profile e;
          e = analyze_savings profile e;
          e = analyze_age profile e;
          e = analyze_loan_amount profile e
      in unshift_reason (final_reason approved_arg) e)"

datatype rate =
    RateRange "real \<times> real"
  | RateText js_text

datatype recommendation =
    Improvement (title: string) (description: js_text) (priority: string) (icon: string)
  | LoanOption (loan_type: string) (loan_description: string) (maxAmount: real)
      (interestRate: rate) (loan_term: string) (icon: string) (suitability: string)

definition getImprovementRecommendations :: "UserFinancialProfile \<Rightarrow> recommendation list" where
  "getImprovementRecommendations profile =
     (let recs = [];
          dti = calculateDTI profile;
          recs = (if dti > 36 then recs @
                    [Improvement ''Reduce Your Debt-to-Income Ratio''
                       [Lit ''Your DTI is '', Fixed 1 dti,
                        Lit ''%. Try to reduce expenses or pay down existing debts to get below 36%.'']
                       ''high'' ''trending-down'']
                  else recs);
          recs = (if monthlyIncome profile < 3000 then recs @
                    [Improvement ''Increase Your Income''
                       (lit ''Consider additional income sources or negotiate a raise to improve your financial position.'')
                       ''high'' ''trending-up'']
                  else recs);
          employmentScore = getEmploymentStabilityScore profile;
          recs = (if employmentScore < 50 then recs @
                    [Improvement ''Improve Employment Stability''
                       (lit ''Seek permanent employment or build a longer employment history.'')
                       ''medium'' ''briefcase'']
                  else recs);
          savingsRate = calculateSavingsRate profile;
          recs = (if savingsRate < 10 then recs @
                    [Improvement ''Build Your Savings''
                       (lit ''Try to save at least 10% of your monthly income to demonstrate financial discipline.'')
                       ''medium'' ''wallet'']
                  else recs);
          recs = (if existingDebts profile > 0 then recs @
                    [Improvement ''Pay Down Existing Debts''
                       (lit ''Focus on reducing your existing debt burden before applying for new loans.'')
                       ''high'' ''card'']
                  else recs);
          loanToIncome = calculateLoanToIncomeRatio profile;
          recs = (if loanToIncome > 3 then recs @
                    [Improvement ''Request a Lower Loan Amount''
                       (lit ''Consider requesting a smaller loan amount relative to your annual income.'')
                       ''medium'' ''cash'']
                  else recs)
      in recs)"

definition getInterestRateRange :: "real \<Rightarrow> real \<times> real" where
  "getInterestRateRange score_arg =
     (if score_arg \<ge> 750 then (4.5, 6.5)
      else if score_arg \<ge> 700 then (6.5, 8.5)
      else if score_arg \<ge> 650 then (8.5, 11.5)
      else if score_arg \<ge> 600 then (11.5, 14.5)
      else (14.5, 18.5))"

definition getMaxLoanAmount :: "UserFinancialProfile \<Rightarrow> real \<Rightarrow> real" where
  "getMaxLoanAmount profile score_arg =
     (let annualIncome = js_mul (monthlyIncome profile) 12;
          disposableIncome = calculateDisposableIncome profile;
          multiplier = (1::real);
          multiplier =
            (if score_arg \<ge> 750 then 4
             else if score_arg \<ge> 700 then 3.5
             else if score_arg \<ge> 650 then 3
             else if score_arg \<ge> 600 then 2.5
             else 2);
          maxByIncome = js_mul annualIncome multiplier;
          maxByDisposable = js_mul disposableIncome 36
      in Math_floor (min maxByIncome maxByDisposable))"

definition getLoanRecommendations :: "UserFinancialProfile \<Rightarrow> real \<Rightarrow> recommendation list" where
  "getLoanRecommendations profile score_arg =
     (let recs = [];
          maxAmount_v = getMaxLoanAmount profile score_arg;
          interestRange = getInterestRateRange score_arg;
          recs = recs @
            [LoanOption ''Personal Loan'' ''Unsecured loan for any purpose'' maxAmount_v
               (RateRange interestRange) ''1-5 years'' ''person''
               (if score_arg \<ge> 700 then ''Highly Suitable'' else ''Suitable'')];
          recs = (if monthlyIncome profile > 5000 then recs @
            [LoanOption ''Home Loan'' ''Mortgage for home purchase'' (js_mul maxAmount_v 5)
               (RateText [Number (js_sub (fst interestRange) 1), Lit ''% - '',
                          Number (js_sub (snd interestRange) 1), Lit ''%''])
               ''15-30 years'' ''home''
               (if score_arg \<ge> 680 then ''Highly Suitable'' else ''Suitable'')]
            else recs);
          recs = recs @
            [LoanOption ''Auto Loan'' ''Loan for vehicle purchase''
               (min (js_mul maxAmount_v 2) (js_mul (monthlyIncome profile) 48))
               (RateText [Number (js_sub (fst interestRange) 0.5), Lit ''% - '',
                          Number (js_sub (snd interestRange) 0.5), Lit ''%''])
               ''3-7 years'' ''car''
               (if score_arg \<ge> 650 then ''Suitable'' else ''Fair'')];
          recs = (if toLowerCase (employmentType profile) = ''self-employed'' then recs @
            [LoanOption ''Business Loan'' ''Loan for business purposes'' (js_mul maxAmount_v 1.5)
               (RateText [Number (js_add (fst interestRange) 1), Lit ''% - '',
                          Number (js_add (snd interestRange) 2), Lit ''%''])
               ''1-10 years'' ''briefcase''
               (if score_arg \<ge> 670 then ''Suitable'' else ''Consider'')]
            else recs)
      in recs)"

text \<open>
  The two shapes of the object \<^verbatim>\<open>makeDecision\<close> returns: the one for a profile that
  failed validation, whose reasons are the validation messages, and the full decision.
\<close>

datatype decision =
    Rejected (approved: bool) (confidence: real) (decision_score: real)
      (decision_reasons: "js_text list") (recommendations: "recommendation list")
  | decided: Decided (approved: bool) (confidence: real) (decision_score: real)
      (decision_riskLevel: string) (decision_reasons: "js_text list")
      (decision_positiveFactors: "string list") (decision_negativeFactors: "string list")
      (recommendations: "recommendation list") (interestRateRange: "real \<times> real")
      (maxLoanAmount: real) (decision_breakdown: breakdown)

definition makeDecision :: "LoanDecisionService \<Rightarrow> UserFinancialProfile \<Rightarrow> js_error + decision" where
  "makeDecision this profile =
     and_then (fst (calculateScore (calculator this) profile)) (\<lambda>scoreResult.
       if \<not> success scoreResult then
         Inr (Rejected False 0 300 (map lit (result_errors scoreResult))
                (getImprovementRecommendations profile))
       else
         let score_v = result_score scoreResult;
             riskLevel_v = result_riskLevel scoreResult;
             approvalProbability = getApprovalProbability score_v;
             approved_v = (score_v \<ge> 580);
             expl = generateExplanation profile score_v approved_v;
             recs = (if approved_v then getLoanRecommendations profile score_v
                     else getImprovementRecommendations profile)
         in Inr (Decided approved_v approvalProbability score_v riskLevel_v
                   (reasons expl) (positiveFactors expl) (negativeFactors expl) recs
                   (getInterestRateRange score_v) (getMaxLoanAmount profile score_v)
                   (result_breakdown scoreResult)))"

subsection \<open>Sequences of scoring calls\<close>




subsection \<open>Sample inputs\<close>

text \<open>An object that has all nine members a strategy uses.\<close>

definition sample_object :: profile_object where
  "sample_object =
     \<lparr> getTotalIncome = Some 60000, getDebtToIncomeRatio = Some 15,
       getSavingsToIncomeRatio = Some 25, getDisposableIncome = Some 2000,
       getEmploymentStability = Some 90, getNetWorth = Some 100000,
       employmentStatus = Some ''employed'', yearsAtJob = Some 5, age_property = Some 35 \<rparr>"

text \<open>
  A strategy object that gives every profile the same score: any object with the two
  methods can be handed to the constructor of the calculator or to \<^verbatim>\<open>setStrategy\<close>.
\<close>

definition fixed_strategy :: "string \<Rightarrow> real \<Rightarrow> strategy_instance" where
  "fixed_strategy name v =
     \<lparr> strategy_calculateScore = (\<lambda>profile. Inr v), strategy_getName = Inr name \<rparr>"

section \<open>Validation\<close>

lemma validate_errors:
  "errors (validate p) = map snd (filter fst (validation_rules p))"
  by (simp add: validate_def validation_rules_def Let_def)

lemma validate_isValid: "isValid (validate p) \<longleftrightarrow> errors (validate p) = []"
  by (simp add: validate_def Let_def)

text \<open>
  Claim C3. \<^verbatim>\<open>validate\<close> is total (it never throws) and returns the messages of exactly
  the violated rules among the seven checks, in the order of the checks; \<open>isValid\<close> holds
  iff no message was collected; a profile whose monthly income is not positive is invalid
  and carries the income message.
\<close>

theorem validate_contract:
  "errors (validate p) = map snd (filter fst (validation_rules p))
   \<and> (isValid (validate p) \<longleftrightarrow> errors (validate p) = [])
   \<and> (isValid (validate p) \<longleftrightarrow> (\<forall>r \<in> set (validation_rules p). \<not> fst r))
   \<and> (monthlyIncome p \<le> 0 \<longrightarrow>
        \<not> isValid (validate p)
        \<and> ''Monthly income must be greater than 0'' \<in> set (errors (validate p)))"
proof -
  have e: "errors (validate p) = map snd (filter fst (validation_rules p))"
    by (rule validate_errors)
  have v: "isValid (validate p) \<longleftrightarrow> errors (validate p) = []"
    by (rule validate_isValid)
  have n: "errors (validate p) = [] \<longleftrightarrow> (\<forall>r \<in> set (validation_rules p). \<not> fst r)"
    by (simp add: e filter_empty_conv)
  have i: "''Monthly income must be greater than 0'' \<in> set (errors (validate p))"
    if "monthlyIncome p \<le> 0"
    using that by (simp add: e validation_rules_def)
  from i have "monthlyIncome p \<le> 0 \<longrightarrow>
        \<not> isValid (validate p)
        \<and> ''Monthly income must be greater than 0'' \<in> set (errors (validate p))"
    using v by fastforce
  with e v n show ?thesis by blast
qed

theorem validate_contract_witness:
  "errors (validate (scenario1\<lparr>monthlyIncome := 0, age := 17\<rparr>))
     = [''Monthly income must be greater than 0'', ''Age must be at least 18'']
   \<and> \<not> isValid (validate (scenario1\<lparr>monthlyIncome := 0, age := 17\<rparr>))
   \<and> isValid (validate scenario1)"
  using validate_contract [of "scenario1\<lparr>monthlyIncome := 0, age := 17\<rparr>"]
    validate_contract [of scenario1]
  by (simp add: validation_rules_def scenario1_def)

section \<open>Rounding\<close>

lemma pow2_pos: "0 < pow2 e"
  by (simp add: pow2_def)

lemma round_even_nonneg: "0 \<le> x \<Longrightarrow> 0 \<le> round_even x"
  by (simp add: round_even_def Let_def)

lemma round_even_nonpos: "x \<le> 0 \<Longrightarrow> round_even x \<le> 0"
proof -
  assume x: "x \<le> 0"
  show ?thesis
  proof (cases "x = 0")
    case True
    then show ?thesis by (simp add: round_even_def)
  next
    case False
    with x have "\<lfloor>x\<rfloor> \<le> - 1" by linarith
    then show ?thesis by (simp add: round_even_def Let_def)
  qed
qed

lemma round_even_of_int: "round_even (of_int m) = m"
  by (simp add: round_even_def)

lemma fl_nonneg: "0 \<le> x \<Longrightarrow> 0 \<le> fl x"
  by (simp add: fl_def Let_def round_even_nonneg pow2_pos less_imp_le)

lemma fl_nonpos: "x \<le> 0 \<Longrightarrow> fl x \<le> 0"
  by (simp add: fl_def Let_def round_even_nonpos pow2_pos less_imp_le
      mult_le_0_iff divide_le_0_iff)

lemma fl_Ints: "x \<in> \<int> \<Longrightarrow> fl x \<in> \<int>"
proof -
  assume "x \<in> \<int>"
  then obtain n where n: "x = of_int n" by (auto elim: Ints_cases)
  define e where "e = binade \<bar>x\<bar> - 52"
  show ?thesis
  proof (cases "0 \<le> e")
    case True
    then have "pow2 e = of_int (2 ^ nat e)" by (simp add: pow2_def)
    then show ?thesis by (simp add: fl_def Let_def e_def [symmetric])
  next
    case False
    then have "x / pow2 e = of_int (n * 2 ^ nat (- e))" by (simp add: pow2_def n)
    then have "round_even (x / pow2 e) = n * 2 ^ nat (- e)"
      by (simp only: round_even_of_int)
    with False show ?thesis by (simp add: fl_def Let_def e_def [symmetric] pow2_def)
  qed
qed

lemma expo_up_le: "a < 2 ^ Suc k \<Longrightarrow> expo_up a \<le> int k"
proof (induction k arbitrary: a)
  case 0
  then show ?case by (subst expo_up.simps) simp
next
  case (Suc k)
  show ?case
  proof (cases "2 \<le> a")
    case True
    from Suc.prems have "a / 2 < 2 ^ Suc k" by simp
    then have "expo_up (a / 2) \<le> int k" by (rule Suc.IH)
    with True show ?thesis by (subst expo_up.simps) simp
  next
    case False
    then show ?thesis by (subst expo_up.simps) simp
  qed
qed

lemma fl_int_exact:
  assumes "x \<in> \<int>" and "\<bar>x\<bar> < 2 ^ 53"
  shows "fl x = x"
proof (cases "x = 0")
  case True
  then show ?thesis by (simp add: fl_def)
next
  case False
  from assms(1) obtain n where n: "x = of_int n" by (auto elim: Ints_cases)
  with False have "1 \<le> \<bar>x\<bar>" by simp
  then have b: "binade \<bar>x\<bar> = expo_up \<bar>x\<bar>" by (simp add: binade_def)
  from assms(2) have "expo_up \<bar>x\<bar> \<le> int 52" by (intro expo_up_le) simp
  with b have e: "binade \<bar>x\<bar> - 52 \<le> 0" by simp
  define m where "m = nat (- (binade \<bar>x\<bar> - 52))"
  from e have p: "pow2 (binade \<bar>x\<bar> - 52) = 1 / 2 ^ m"
    by (cases "binade \<bar>x\<bar> - 52 = 0") (simp_all add: pow2_def m_def)
  have "x / pow2 (binade \<bar>x\<bar> - 52) = x * 2 ^ m"
    by (simp add: p)
  also have "\<dots> = of_int (n * 2 ^ m)"
    by (simp add: n)
  finally have "round_even (x / pow2 (binade \<bar>x\<bar> - 52)) = n * 2 ^ m"
    by (simp only: round_even_of_int)
  then have "fl x = of_int (n * 2 ^ m) * (1 / 2 ^ m)"
    using False by (simp only: fl_def Let_def p if_False)
  then show ?thesis by (simp add: n)
qed

lemma js_add_nonneg: "0 \<le> a \<Longrightarrow> 0 \<le> b \<Longrightarrow> 0 \<le> js_add a b"
  by (simp add: js_add_def fl_nonneg)

lemma js_mul_nonneg: "0 \<le> a \<Longrightarrow> 0 \<le> b \<Longrightarrow> 0 \<le> js_mul a b"
  by (simp add: js_mul_def fl_nonneg)

lemma js_div_nonneg: "0 \<le> a \<Longrightarrow> 0 \<le> b \<Longrightarrow> 0 \<le> js_div a b"
  by (simp add: js_div_def fl_nonneg)

lemma js_sub_nonpos: "a \<le> b \<Longrightarrow> js_sub a b \<le> 0"
  by (simp add: js_sub_def fl_nonpos)

lemma js_add_Ints: "a \<in> \<int> \<Longrightarrow> b \<in> \<int> \<Longrightarrow> js_add a b \<in> \<int>"
  by (simp add: js_add_def fl_Ints)

text \<open>
  The double nearest to one tenth, and the monthly share of a yearly debt of 10000.
\<close>

lemma fl_examples:
  "fl (1 / 10) = 3602879701896397 / 36028797018963968"
  "fl (10000 / 12) = 7330077518506667 / 8796093022208"
  "fl (2 ^ 53 + 1) = 2 ^ 53"
  "fl 3 = 3"
  by code_simp+

section \<open>Derived metrics\<close>

text \<open>
  Claim C6. For a profile whose income, expenses and debts are not negative the
  debt-to-income ratio lies between 0 and 100; the savings rate and the disposable income
  are never negative; when the monthly income is 0 the ratio is 100 and the savings rate
  is 0 (no division takes place), and the disposable income is 0 as the expenses and the
  debts are not negative.
\<close>

theorem derived_metrics_bounds:
  "(0 \<le> monthlyIncome p \<and> 0 \<le> monthlyExpenses p \<and> 0 \<le> existingDebts p
      \<longrightarrow> 0 \<le> calculateDTI p \<and> calculateDTI p \<le> 100)
   \<and> 0 \<le> calculateSavingsRate p \<and> 0 \<le> calculateDisposableIncome p
   \<and> (monthlyIncome p = 0 \<longrightarrow> calculateDTI p = 100 \<and> calculateSavingsRate p = 0)
   \<and> (monthlyIncome p = 0 \<and> 0 \<le> monthlyExpenses p \<and> 0 \<le> existingDebts p
      \<longrightarrow> calculateDisposableIncome p = 0)"
proof -
  have dti: "0 \<le> calculateDTI p \<and> calculateDTI p \<le> 100"
    if "0 \<le> monthlyIncome p" "0 \<le> monthlyExpenses p" "0 \<le> existingDebts p"
    using that
    by (simp add: calculateDTI_def Let_def js_add_nonneg js_mul_nonneg js_div_nonneg)
  have sav: "0 \<le> calculateSavingsRate p"
    by (simp add: calculateSavingsRate_def Let_def)
  have dis: "0 \<le> calculateDisposableIncome p"
    by (simp add: calculateDisposableIncome_def Let_def)
  have zero: "calculateDTI p = 100 \<and> calculateSavingsRate p = 0" if "monthlyIncome p = 0"
    using that by (simp add: calculateDTI_def calculateSavingsRate_def)
  have dis0: "calculateDisposableIncome p = 0"
    if "monthlyIncome p = 0" "0 \<le> monthlyExpenses p" "0 \<le> existingDebts p"
  proof -
    from that have "js_sub (monthlyIncome p) (monthlyExpenses p) \<le> 0"
      by (simp add: js_sub_nonpos)
    moreover from that have "0 \<le> js_div (existingDebts p) 12"
      by (simp add: js_div_nonneg)
    ultimately have "js_sub (js_sub (monthlyIncome p) (monthlyExpenses p))
        (js_div (existingDebts p) 12) \<le> 0"
      by (intro js_sub_nonpos) simp
    then show ?thesis
      by (simp add: calculateDisposableIncome_def Let_def)
  qed
  from dti sav dis zero dis0 show ?thesis by blast
qed

theorem derived_metrics_bounds_witness:
  "calculateDTI (scenario1\<lparr>monthlyIncome := 0\<rparr>) = 100
   \<and> calculateSavingsRate (scenario1\<lparr>monthlyIncome := 0\<rparr>) = 0
   \<and> calculateDisposableIncome (scenario1\<lparr>monthlyIncome := 0\<rparr>) = 0
   \<and> 0 \<le> calculateDTI scenario1 \<and> calculateDTI scenario1 \<le> 100"
  using derived_metrics_bounds [of "scenario1\<lparr>monthlyIncome := 0\<rparr>"]
    derived_metrics_bounds [of scenario1]
  by (simp add: scenario1_def)

section \<open>Scoring strategies\<close>

lemma clamp_score_range: "0 \<le> clamp_score x \<and> clamp_score x \<le> 100"
  by (simp add: clamp_score_def)

lemma clamp_score_Ints: "x \<in> \<int> \<Longrightarrow> clamp_score x \<in> \<int>"
  by (simp add: clamp_score_def min_def max_def)

lemma if_Ints: "a \<in> \<int> \<Longrightarrow> b \<in> \<int> \<Longrightarrow> (if c then a else b) \<in> (\<int> :: real set)"
  by simp

lemma Math_floor_Ints: "Math_floor x \<in> \<int>"
  by (simp add: Math_floor_def)

text \<open>
  When a strategy returns, every method it called was there, and the score is an integer
  between 0 and 100.
\<close>

lemma Conservative_returns:
  assumes "Conservative_calculateScore obj = Inr s"
  shows "s \<in> \<int> \<and> 0 \<le> s \<and> s \<le> 100"
proof -
  from assms obtain income dti savingsRatio stability where
    "getTotalIncome obj = Some income" "getDebtToIncomeRatio obj = Some dti"
    "getSavingsToIncomeRatio obj = Some savingsRatio" "getEmploymentStability obj = Some stability"
    by (auto simp: Conservative_calculateScore_def and_then_def call_method_def Let_def
        split: option.splits split del: if_split)
  with assms show ?thesis
    unfolding Conservative_calculateScore_def and_then_def call_method_def Let_def
    by (auto intro!: clamp_score_Ints js_add_Ints if_Ints Math_floor_Ints
        simp: clamp_score_range split del: if_split)
qed

lemma Standard_returns:
  assumes "Standard_calculateScore obj = Inr s"
  shows "s \<in> \<int> \<and> 0 \<le> s \<and> s \<le> 100"
proof -
  from assms obtain income dti disposable stability netWorth where
    "getTotalIncome obj = Some income" "getDebtToIncomeRatio obj = Some dti"
    "getDisposableIncome obj = Some disposable" "getEmploymentStability obj = Some stability"
    "getNetWorth obj = Some netWorth"
    by (auto simp: Standard_calculateScore_def and_then_def call_method_def Let_def
        split: option.splits split del: if_split)
  with assms show ?thesis
    unfolding Standard_calculateScore_def and_then_def call_method_def Let_def
    by (auto intro!: clamp_score_Ints js_add_Ints if_Ints Math_floor_Ints
        simp: clamp_score_range split del: if_split)
qed

lemma Aggressive_returns:
  assumes "Aggressive_calculateScore obj = Inr s"
  shows "s \<in> \<int> \<and> 0 \<le> s \<and> s \<le> 100"
proof -
  from assms obtain income dti disposable where
    "getTotalIncome obj = Some income" "getDebtToIncomeRatio obj = Some dti"
    "getDisposableIncome obj = Some disposable"
    by (auto simp: Aggressive_calculateScore_def and_then_def call_method_def Let_def
        split: option.splits split del: if_split)
  with assms show ?thesis
    unfolding Aggressive_calculateScore_def and_then_def call_method_def Let_def
    by (auto intro!: clamp_score_Ints js_add_Ints if_Ints Math_floor_Ints
        simp: clamp_score_range split del: if_split)
qed

lemma implemented_returns:
  assumes "st \<in> set implemented" "calculateScore_of st obj = Inr s"
  shows "s \<in> \<int> \<and> 0 \<le> s \<and> s \<le> 100"
  using assms Conservative_returns Standard_returns Aggressive_returns
  by (auto simp: implemented_def)

text \<open>
  Claim C1. The three strategies are documented to take a \<^verbatim>\<open>UserFinancialProfile\<close> and
  to return a score between 0 and 100. Each of them starts by calling
  \<^verbatim>\<open>profile.getTotalIncome()\<close>, a method the class does not have: on every instance
  of \<^verbatim>\<open>UserFinancialProfile\<close> each strategy throws a \<^verbatim>\<open>TypeError\<close> and returns no score.
\<close>

theorem strategies_throw_on_UserFinancialProfile:
  "calculateScore_of ConservativeScoringStrategy (as_object p) = Inl TypeError
   \<and> calculateScore_of StandardScoringStrategy (as_object p) = Inl TypeError
   \<and> calculateScore_of AggressiveScoringStrategy (as_object p) = Inl TypeError"
  by (simp add: Conservative_calculateScore_def Standard_calculateScore_def
      Aggressive_calculateScore_def as_object_def call_method_def and_then_def)

section \<open>Classification, calculator and decision\<close>

lemma low_score_classes:
  assumes "s \<le> 100"
  shows "getRiskLevel s = ''Very High''" "getScoreRating s = ''Poor''"
    "getApprovalProbability s = 15" "\<not> s \<ge> 580"
  using assms by (simp_all add: getRiskLevel_def getScoreRating_def getApprovalProbability_def)

lemma calculateScore_frame: "snd (calculateScore this p) = this"
  by (simp add: calculateScore_def Let_def)

lemma calculateScore_invalid:
  "\<not> isValid (validate p) \<Longrightarrow>
     calculateScore this p = (Inr (Failure (errors (validate p)) 300), this)"
  by (simp add: calculateScore_def Let_def)

lemma calculateScore_valid:
  assumes "isValid (validate p)"
    and "strategy_calculateScore (strategy this) p = Inr s"
    and "strategy_getName (strategy this) = Inr n"
  shows "fst (calculateScore this p)
           = Inr (Success s (getRiskLevel s) (getScoreRating s) n (getScoreBreakdown p s))"
  using assms by (simp add: calculateScore_def Let_def and_then_def)

lemma calculateScore_success:
  assumes "fst (calculateScore this p) = Inr r" "success r"
  shows "result_riskLevel r = getRiskLevel (result_score r)
         \<and> result_rating r = getScoreRating (result_score r)
         \<and> strategy_calculateScore (strategy this) p = Inr (result_score r)"
  using assms
  by (auto simp: calculateScore_def Let_def and_then_def split: if_splits sum.splits)

lemma makeDecision_decided:
  assumes "makeDecision svc p = Inr d" "decided d"
  shows "approved d = (decision_score d \<ge> 580)
         \<and> confidence d = getApprovalProbability (decision_score d)"
  using assms
  by (auto simp: makeDecision_def Let_def and_then_def split: if_splits sum.splits)

text \<open>
  Claim C5. A score that one of the three implemented strategies returns is at most 100,
  below every threshold of the classification: its risk level is \<open>Very High\<close>, its rating
  \<open>Poor\<close>, its approval probability 15, and it does not reach the approval threshold 580.
  So a successful result of the calculator with that score carries this risk level and
  rating, and a decision on that score is not approved, with confidence 15.
\<close>

theorem implemented_scores_below_thresholds:
  assumes "st \<in> set implemented" and "calculateScore_of st obj = Inr s"
  shows "s \<le> 100
     \<and> getRiskLevel s = ''Very High'' \<and> getScoreRating s = ''Poor''
     \<and> getApprovalProbability s = 15 \<and> \<not> s \<ge> 580
     \<and> (\<forall>this p r. fst (calculateScore this p) = Inr r \<and> success r \<and> result_score r = s
           \<longrightarrow> result_riskLevel r = ''Very High'' \<and> result_rating r = ''Poor'')
     \<and> (\<forall>svc p d. makeDecision svc p = Inr d \<and> decided d \<and> decision_score d = s
           \<longrightarrow> \<not> approved d \<and> confidence d = 15)"
proof -
  from assms have le: "s \<le> 100" using implemented_returns by blast
  note cls = low_score_classes [OF le]
  have c: "result_riskLevel r = ''Very High'' \<and> result_rating r = ''Poor''"
    if "fst (calculateScore this p) = Inr r" "success r" "result_score r = s" for this p r
    using calculateScore_success [OF that(1,2)] that(3) cls(1,2) by simp
  have d: "\<not> approved d \<and> confidence d = 15"
    if "makeDecision svc p = Inr d" "decided d" "decision_score d = s" for svc p d
    using makeDecision_decided [OF that(1,2)] that(3) cls(3,4) by simp
  from le cls c d show ?thesis by blast
qed

theorem implemented_scores_below_thresholds_witness:
  "ConservativeScoringStrategy \<in> set implemented
   \<and> calculateScore_of ConservativeScoringStrategy sample_object = Inr 83
   \<and> getRiskLevel 83 = ''Very High'' \<and> getScoreRating 83 = ''Poor''
   \<and> getApprovalProbability 83 = 15
   \<and> (\<exists>r. fst (calculateScore \<lparr> strategy = fixed_strategy ''AI-Based'' 83 \<rparr> scenario1) = Inr r
          \<and> success r \<and> result_score r = 83 \<and> result_riskLevel r = ''Very High''
          \<and> result_rating r = ''Poor'')
   \<and> (\<exists>d. makeDecision \<lparr> calculator = \<lparr> strategy = fixed_strategy ''AI-Based'' 83 \<rparr> \<rparr> scenario1 = Inr d
          \<and> decided d \<and> decision_score d = 83 \<and> \<not> approved d \<and> confidence d = 15)"
proof -
  have i: "ConservativeScoringStrategy \<in> set implemented"
    by (simp add: implemented_def)
  have f: "Math_floor (js_mul 90 (fl (3 / 20))) = 13"
    by code_simp
  have adds: "js_add 0 20 = 20" "js_add 20 25 = 45" "js_add 45 15 = 60" "js_add 60 13 = 73"
    "js_add 73 10 = 83"
    by (simp_all add: js_add_def fl_int_exact)
  have s: "calculateScore_of ConservativeScoringStrategy sample_object = Inr 83"
    by (simp add: Conservative_calculateScore_def sample_object_def and_then_def call_method_def
      Let_def num_ge_def num_le_def num_lt_def f adds clamp_score_def)
  note t = implemented_scores_below_thresholds [OF i s]
  have v: "isValid (validate scenario1)"
    by (simp add: validate_def scenario1_def Let_def)
  have r: "fst (calculateScore \<lparr> strategy = fixed_strategy ''AI-Based'' 83 \<rparr> scenario1)
      = Inr (Success 83 (getRiskLevel 83) (getScoreRating 83) ''AI-Based'' (getScoreBreakdown scenario1 83))"
    by (rule calculateScore_valid [OF v]) (simp_all add: fixed_strategy_def)
  have r': "success (Success 83 (getRiskLevel 83) (getScoreRating 83) ''AI-Based'' (getScoreBreakdown scenario1 83))
     \<and> result_score (Success 83 (getRiskLevel 83) (getScoreRating 83) ''AI-Based'' (getScoreBreakdown scenario1 83)) = 83"
    by simp
  obtain d where d: "makeDecision \<lparr> calculator = \<lparr> strategy = fixed_strategy ''AI-Based'' 83 \<rparr> \<rparr> scenario1 = Inr d"
          "decided d" "decision_score d = 83"
    by (simp add: makeDecision_def r and_then_def Let_def)
  from t have c1: "getRiskLevel 83 = ''Very High'' \<and> getScoreRating 83 = ''Poor''
   \<and> getApprovalProbability 83 = 15" by blast
  from t r r' have c2: "\<exists>r. fst (calculateScore \<lparr> strategy = fixed_strategy ''AI-Based'' 83 \<rparr> scenario1) = Inr r
          \<and> success r \<and> result_score r = 83 \<and> result_riskLevel r = ''Very High''
          \<and> result_rating r = ''Poor''" by blast
  from t d have c3: "\<exists>d. makeDecision \<lparr> calculator = \<lparr> strategy = fixed_strategy ''AI-Based'' 83 \<rparr> \<rparr> scenario1 = Inr d
          \<and> decided d \<and> decision_score d = 83 \<and> \<not> approved d \<and> confidence d = 15" by blast
  from i s c1 c2 c3 show ?thesis by blast
qed

text \<open>
  Claim C2. For a profile that passes validation and a strategy that returns the score
  \<open>s\<close> for it, \<^verbatim>\<open>makeDecision\<close> returns the full decision with \<open>approved = (s \<ge> 580)\<close>,
  so a score of exactly 580 is approved, and with the approval probability of \<open>s\<close> as its
  confidence: 95 from 750, 85 from 700, 70 from 650, 50 from 600, 30 from 550, else 15.
\<close>

theorem makeDecision_threshold:
  assumes "isValid (validate p)"
    and "strategy_calculateScore (strategy (calculator svc)) p = Inr s"
    and "strategy_getName (strategy (calculator svc)) = Inr n"
  shows "\<exists>d. makeDecision svc p = Inr d \<and> decided d \<and> decision_score d = s
           \<and> approved d = (s \<ge> 580) \<and> (s = 580 \<longrightarrow> approved d)
           \<and> confidence d = getApprovalProbability s
           \<and> confidence d =
               (if s \<ge> 750 then 95 else if s \<ge> 700 then 85 else if s \<ge> 650 then 70
                else if s \<ge> 600 then 50 else if s \<ge> 550 then 30 else 15)"
proof -
  have r: "fst (calculateScore (calculator svc) p)
      = Inr (Success s (getRiskLevel s) (getScoreRating s) n (getScoreBreakdown p s))"
    using assms by (rule calculateScore_valid)
  obtain d where d: "makeDecision svc p = Inr d" "decided d" "decision_score d = s"
    by (simp add: makeDecision_def r and_then_def Let_def)
  from makeDecision_decided [OF d(1,2)] d(3)
  have a: "approved d = (s \<ge> 580)" and c: "confidence d = getApprovalProbability s"
    by simp_all
  have t: "getApprovalProbability s =
               (if s \<ge> 750 then 95 else if s \<ge> 700 then 85 else if s \<ge> 650 then 70
                else if s \<ge> 600 then 50 else if s \<ge> 550 then 30 else 15)"
    by (simp add: getApprovalProbability_def)
  from a have "s = 580 \<longrightarrow> approved d" by simp
  with d a c t show ?thesis by (intro exI [of _ d]) simp
qed

theorem makeDecision_threshold_witness:
  "isValid (validate scenario1)
   \<and> (\<exists>d. makeDecision \<lparr> calculator = \<lparr> strategy = fixed_strategy ''AI-Based'' 580 \<rparr> \<rparr> scenario1 = Inr d
          \<and> approved d \<and> confidence d = 30)
   \<and> (\<exists>d. makeDecision \<lparr> calculator = \<lparr> strategy = fixed_strategy ''AI-Based'' 579 \<rparr> \<rparr> scenario1 = Inr d
          \<and> \<not> approved d \<and> confidence d = 30)"
proof -
  have v: "isValid (validate scenario1)"
    by (simp add: validate_def scenario1_def Let_def)
  have a: "\<exists>d. makeDecision \<lparr> calculator = \<lparr> strategy = fixed_strategy ''AI-Based'' 580 \<rparr> \<rparr> scenario1 = Inr d
          \<and> approved d \<and> confidence d = 30"
    using makeDecision_threshold [OF v,
        of "\<lparr> calculator = \<lparr> strategy = fixed_strategy ''AI-Based'' 580 \<rparr> \<rparr>" 580 "''AI-Based''"]
    by (auto simp: fixed_strategy_def)
  have b: "\<exists>d. makeDecision \<lparr> calculator = \<lparr> strategy = fixed_strategy ''AI-Based'' 579 \<rparr> \<rparr> scenario1 = Inr d
          \<and> \<not> approved d \<and> confidence d = 30"
    using makeDecision_threshold [OF v,
        of "\<lparr> calculator = \<lparr> strategy = fixed_strategy ''AI-Based'' 579 \<rparr> \<rparr>" 579 "''AI-Based''"]
    by (auto simp: fixed_strategy_def)
  from v a b show ?thesis by blast
qed

text \<open>
  Claim C4. For a profile that fails validation \<^verbatim>\<open>calculateScore\<close> returns
  \<^verbatim>\<open>{success: false, errors, score: 300}\<close> with the messages of \<^verbatim>\<open>validate\<close>, throws
  nothing and leaves the calculator as it is, whatever the strategy of the calculator:
  the strategy is not asked, so a strategy that would throw changes nothing.
\<close>

theorem invalid_profile_sentinel:
  assumes "\<not> isValid (validate p)"
  shows "calculateScore this p = (Inr (Failure (errors (validate p)) 300), this)
     \<and> (\<forall>s. calculateScore (setStrategy this s) p
              = (Inr (Failure (errors (validate p)) 300), setStrategy this s))
     \<and> (\<exists>r. fst (calculateScore this p) = Inr r \<and> \<not> success r
              \<and> result_errors r = errors (validate p) \<and> result_score r = 300)"
  using assms by (simp add: calculateScore_invalid)

theorem invalid_profile_sentinel_witness:
  "\<not> isValid (validate (scenario1\<lparr>age := 17\<rparr>))
   \<and> strategy_calculateScore (instance_of ScoringStrategy) (scenario1\<lparr>age := 17\<rparr>)
       = Inl (Error ''calculateScore must be implemented by subclass'')
   \<and> calculateScore \<lparr> strategy = instance_of ScoringStrategy \<rparr> (scenario1\<lparr>age := 17\<rparr>)
       = (Inr (Failure [''Age must be at least 18''] 300), \<lparr> strategy = instance_of ScoringStrategy \<rparr>)"
proof -
  have v: "\<not> isValid (validate (scenario1\<lparr>age := 17\<rparr>))"
    by (simp add: validate_def scenario1_def Let_def)
  have e: "errors (validate (scenario1\<lparr>age := 17\<rparr>)) = [''Age must be at least 18'']"
    by (simp add: validate_def scenario1_def Let_def)
  have t: "strategy_calculateScore (instance_of ScoringStrategy) (scenario1\<lparr>age := 17\<rparr>)
       = Inl (Error ''calculateScore must be implemented by subclass'')"
    by (simp add: instance_of_def)
  from invalid_profile_sentinel [OF v, of "\<lparr> strategy = instance_of ScoringStrategy \<rparr>"] v e t
  show ?thesis by simp
qed

section \<open>Factory\<close>

lemma same_name_lower: "same_name a b \<longleftrightarrow> toLowerCase a = toLowerCase b"
  unfolding same_name_def toLowerCase_def
proof (induction a arbitrary: b)
  case Nil
  then show ?case by auto
next
  case (Cons x xs)
  then show ?case by (cases b) auto
qed

lemma lower_names:
  "toLowerCase ''conservative'' = ''conservative''"
  "toLowerCase ''standard'' = ''standard''"
  "toLowerCase ''aggressive'' = ''aggressive''"
  by code_simp+

text \<open>
  Claim C8. \<^verbatim>\<open>getStrategy\<close> gives the conservative strategy from 500,000 on, the standard
  one from 100,000 up to 500,000 and the aggressive one below. \<^verbatim>\<open>getStrategyByName\<close>
  gives the strategy whose name the argument spells, whatever the case of its letters,
  and the standard strategy for any other name; it returns for every name.
\<close>

theorem factory_selection:
  "(loanAmount \<ge> 500000 \<longrightarrow> getStrategy loanAmount = ConservativeScoringStrategy)
   \<and> (100000 \<le> loanAmount \<and> loanAmount < 500000
        \<longrightarrow> getStrategy loanAmount = StandardScoringStrategy)
   \<and> (loanAmount < 100000 \<longrightarrow> getStrategy loanAmount = AggressiveScoringStrategy)
   \<and> (same_name name ''conservative'' \<longrightarrow> getStrategyByName name = ConservativeScoringStrategy)
   \<and> (same_name name ''standard'' \<longrightarrow> getStrategyByName name = StandardScoringStrategy)
   \<and> (same_name name ''aggressive'' \<longrightarrow> getStrategyByName name = AggressiveScoringStrategy)
   \<and> (\<not> same_name name ''conservative'' \<and> \<not> same_name name ''standard''
        \<and> \<not> same_name name ''aggressive''
        \<longrightarrow> getStrategyByName name = StandardScoringStrategy)"
  by (simp add: getStrategy_def getStrategyByName_def same_name_lower lower_names Let_def)

theorem factory_selection_witness:
  "getStrategy 500000 = ConservativeScoringStrategy
   \<and> getStrategy 100000 = StandardScoringStrategy
   \<and> getStrategy 99999 = AggressiveScoringStrategy
   \<and> getStrategyByName ''CONSERVATIVE'' = ConservativeScoringStrategy
   \<and> getStrategyByName ''Standard'' = StandardScoringStrategy
   \<and> getStrategyByName ''aGgressive'' = AggressiveScoringStrategy
   \<and> getStrategyByName ''ai-based'' = StandardScoringStrategy"
proof -
  have n: "same_name ''CONSERVATIVE'' ''conservative''" "same_name ''Standard'' ''standard''"
    "same_name ''aGgressive'' ''aggressive''"
    "\<not> same_name ''ai-based'' ''conservative''" "\<not> same_name ''ai-based'' ''standard''"
    "\<not> same_name ''ai-based'' ''aggressive''"
    by code_simp+
  from factory_selection [of 500000 "''CONSERVATIVE''"] factory_selection [of 100000 "''Standard''"]
    factory_selection [of 99999 "''aGgressive''"] factory_selection [of 0 "''ai-based''"] n
  show ?thesis by simp
qed

section \<open>Explanation\<close>

lemma unshift_reason_fields:
  "reasons (unshift_reason r e) = r # reasons e"
  "positiveFactors (unshift_reason r e) = positiveFactors e"
  "negativeFactors (unshift_reason r e) = negativeFactors e"
  by (simp_all add: unshift_reason_def)

text \<open>
  Each analysis leaves what is in the three lists in place and puts its own entries,
  those it gives from the empty lists, behind them.
\<close>

lemma analyze_dti_appends:
  "reasons (analyze_dti p e) = reasons e @ reasons (analyze_dti p empty_explanation)"
  "positiveFactors (analyze_dti p e)
     = positiveFactors e @ positiveFactors (analyze_dti p empty_explanation)"
  "negativeFactors (analyze_dti p e)
     = negativeFactors e @ negativeFactors (analyze_dti p empty_explanation)"
  by (simp_all add: analyze_dti_def push_reason_def push_positive_def push_negative_def
      empty_explanation_def Let_def)

lemma analyze_income_appends:
  "reasons (analyze_income p e) = reasons e @ reasons (analyze_income p empty_explanation)"
  "positiveFactors (analyze_income p e)
     = positiveFactors e @ positiveFactors (analyze_income p empty_explanation)"
  "negativeFactors (analyze_income p e)
     = negativeFactors e @ negativeFactors (analyze_income p empty_explanation)"
  by (simp_all add: analyze_income_def push_reason_def push_positive_def push_negative_def
      empty_explanation_def Let_def)

lemma analyze_employment_appends:
  "reasons (analyze_employment p e)
     = reasons e @ reasons (analyze_employment p empty_explanation)"
  "positiveFactors (analyze_employment p e)
     = positiveFactors e @ positiveFactors (analyze_employment p empty_explanation)"
  "negativeFactors (analyze_employment p e)
     = negativeFactors e @ negativeFactors (analyze_employment p empty_explanation)"
  by (simp_all add: analyze_employment_def push_reason_def push_positive_def push_negative_def
      empty_explanation_def Let_def)

lemma analyze_savings_appends:
  "reasons (analyze_savings p e) = reasons e @ reasons (analyze_savings p empty_explanation)"
  "positiveFactors (analyze_savings p e)
     = positiveFactors e @ positiveFactors (analyze_savings p empty_explanation)"
  "negativeFactors (analyze_savings p e)
     = negativeFactors e @ negativeFactors (analyze_savings p empty_explanation)"
  by (simp_all add: analyze_savings_def push_reason_def push_positive_def push_negative_def
      empty_explanation_def Let_def)

lemma analyze_age_appends:
  "reasons (analyze_age p e) = reasons e @ reasons (analyze_age p empty_explanation)"
  "positiveFactors (analyze_age p e)
     = positiveFactors e @ positiveFactors (analyze_age p empty_explanation)"
  "negativeFactors (analyze_age p e)
     = negativeFactors e @ negativeFactors (analyze_age p empty_explanation)"
  by (simp_all add: analyze_age_def push_reason_def push_positive_def push_negative_def
      empty_explanation_def Let_def)

lemma analyze_loan_amount_appends:
  "reasons (analyze_loan_amount p e)
     = reasons e @ reasons (analyze_loan_amount p empty_explanation)"
  "positiveFactors (analyze_loan_amount p e)
     = positiveFactors e @ positiveFactors (analyze_loan_amount p empty_explanation)"
  "negativeFactors (analyze_loan_amount p e)
     = negativeFactors e @ negativeFactors (analyze_loan_amount p empty_explanation)"
  by (simp_all add: analyze_loan_amount_def push_reason_def push_positive_def push_negative_def
      empty_explanation_def Let_def)

lemmas analyses_append =
  analyze_income_appends [of _ "analyze_dti _ _"]
  analyze_employment_appends [of _ "analyze_income _ _"]
  analyze_savings_appends [of _ "analyze_employment _ _"]
  analyze_age_appends [of _ "analyze_savings _ _"]
  analyze_loan_amount_appends [of _ "analyze_age _ _"]

lemma empty_explanation_fields:
  "reasons empty_explanation = []" "positiveFactors empty_explanation = []"
  "negativeFactors empty_explanation = []"
  by (simp_all add: empty_explanation_def)

lemma analyze_loan_amount_high:
  "calculateLoanToIncomeRatio p > 4 \<Longrightarrow>
     negativeFactors (analyze_loan_amount p empty_explanation)
       = [''Loan amount too high relative to income'']"
  by (simp add: analyze_loan_amount_def push_reason_def push_negative_def
      empty_explanation_def)

lemma final_reason_mentions:
  "mentions (final_reason True) ''APPROVED''"
  "\<not> mentions (final_reason True) ''580''"
  "mentions (final_reason False) ''DENIED''"
  "mentions (final_reason False) ''580''"
  by code_simp+

lemma generateExplanation_lists:
  "reasons (generateExplanation p s a)
     = final_reason a #
       (reasons (analyze_dti p empty_explanation)
        @ reasons (analyze_income p empty_explanation)
        @ reasons (analyze_employment p empty_explanation)
        @ reasons (analyze_savings p empty_explanation)
        @ reasons (analyze_age p empty_explanation)
        @ reasons (analyze_loan_amount p empty_explanation))"
  "positiveFactors (generateExplanation p s a)
     = positiveFactors (analyze_dti p empty_explanation)
       @ positiveFactors (analyze_income p empty_explanation)
       @ positiveFactors (analyze_employment p empty_explanation)
       @ positiveFactors (analyze_savings p empty_explanation)
       @ positiveFactors (analyze_age p empty_explanation)
       @ positiveFactors (analyze_loan_amount p empty_explanation)"
  "negativeFactors (generateExplanation p s a)
     = negativeFactors (analyze_dti p empty_explanation)
       @ negativeFactors (analyze_income p empty_explanation)
       @ negativeFactors (analyze_employment p empty_explanation)
       @ negativeFactors (analyze_savings p empty_explanation)
       @ negativeFactors (analyze_age p empty_explanation)
       @ negativeFactors (analyze_loan_amount p empty_explanation)"
  unfolding generateExplanation_def Let_def unshift_reason_fields
  by (simp_all only: analyses_append append_assoc)

text \<open>
  The ratio that is compared with 4 and 3 is the rounded one: for the doubles nearest to
  a monthly income of 13206.06 and a loan of 633890.88 the exact quotient exceeds 4, and
  \<^verbatim>\<open>calculateLoanToIncomeRatio\<close> returns 4.
\<close>

lemma ratio_rounds_to_four:
  "requestedLoanAmount
       (scenario1\<lparr>monthlyIncome := fl 13206.06, requestedLoanAmount := fl 633890.88\<rparr>)
     / (monthlyIncome
         (scenario1\<lparr>monthlyIncome := fl 13206.06, requestedLoanAmount := fl 633890.88\<rparr>) * 12)
     > 4
   \<and> calculateLoanToIncomeRatio
       (scenario1\<lparr>monthlyIncome := fl 13206.06, requestedLoanAmount := fl 633890.88\<rparr>) = 4"
  by code_simp

text \<open>
  Claim C7, as stated, fails for an approved application: the summary reason of an
  approval reads \<^verbatim>\<open>Loan APPROVED - Credit score meets minimum requirements\<close> and does
  not name the threshold 580.
\<close>

theorem approved_summary_omits_threshold:
  "mentions (hd (reasons (generateExplanation scenario1 600 True))) ''APPROVED''
   \<and> \<not> mentions (hd (reasons (generateExplanation scenario1 600 True))) ''580''"
  by (simp add: generateExplanation_lists final_reason_mentions)

text \<open>
  Claim C7, amended. For every profile the three lists of the explanation hold the
  entries of the six analyses in the order debt-to-income ratio, income, employment,
  savings, age, loan-to-income ratio, and the summary reason is put in front of the
  reasons. For an approval it states \<open>APPROVED\<close>; for a denial it states \<open>DENIED\<close> and
  names the threshold 580. When the loan-to-income ratio that the profile computes
  exceeds 4, \<^verbatim>\<open>Loan amount too high relative to income\<close> is among the negative factors,
  as the last of them.
\<close>

theorem explanation_summary_first:
  "reasons (generateExplanation p s a)
     = final_reason a #
       (reasons (analyze_dti p empty_explanation)
        @ reasons (analyze_income p empty_explanation)
        @ reasons (analyze_employment p empty_explanation)
        @ reasons (analyze_savings p empty_explanation)
        @ reasons (analyze_age p empty_explanation)
        @ reasons (analyze_loan_amount p empty_explanation))
   \<and> positiveFactors (generateExplanation p s a)
     = positiveFactors (analyze_dti p empty_explanation)
       @ positiveFactors (analyze_income p empty_explanation)
       @ positiveFactors (analyze_employment p empty_explanation)
       @ positiveFactors (analyze_savings p empty_explanation)
       @ positiveFactors (analyze_age p empty_explanation)
       @ positiveFactors (analyze_loan_amount p empty_explanation)
   \<and> negativeFactors (generateExplanation p s a)
     = negativeFactors (analyze_dti p empty_explanation)
       @ negativeFactors (analyze_income p empty_explanation)
       @ negativeFactors (analyze_employment p empty_explanation)
       @ negativeFactors (analyze_savings p empty_explanation)
       @ negativeFactors (analyze_age p empty_explanation)
       @ negativeFactors (analyze_loan_amount p empty_explanation)
   \<and> reasons (generateExplanation p s a) \<noteq> []
   \<and> (a \<longrightarrow> hd (reasons (generateExplanation p s a))
          = lit (check_mark @ '' Loan APPROVED - Credit score meets minimum requirements'')
        \<and> mentions (hd (reasons (generateExplanation p s a))) ''APPROVED'')
   \<and> (\<not> a \<longrightarrow> hd (reasons (generateExplanation p s a))
          = lit (cross_mark @ '' Loan DENIED - Credit score below minimum threshold (580)'')
        \<and> mentions (hd (reasons (generateExplanation p s a))) ''DENIED''
        \<and> mentions (hd (reasons (generateExplanation p s a))) ''580'')
   \<and> tl (reasons (generateExplanation p s a)) = tl (reasons (generateExplanation p s' a'))
   \<and> positiveFactors (generateExplanation p s a) = positiveFactors (generateExplanation p s' a')
   \<and> negativeFactors (generateExplanation p s a) = negativeFactors (generateExplanation p s' a')
   \<and> (calculateLoanToIncomeRatio p > 4 \<longrightarrow>
        ''Loan amount too high relative to income'' \<in> set (negativeFactors (generateExplanation p s a))
        \<and> last (negativeFactors (generateExplanation p s a))
            = ''Loan amount too high relative to income'')"
proof -
  note lists = generateExplanation_lists [of p s a]
  have h: "hd (reasons (generateExplanation p s a)) = final_reason a"
    and n: "reasons (generateExplanation p s a) \<noteq> []"
    by (simp_all add: generateExplanation_lists)
  have t: "tl (reasons (generateExplanation p s a)) = tl (reasons (generateExplanation p s' a'))"
    and pf: "positiveFactors (generateExplanation p s a) = positiveFactors (generateExplanation p s' a')"
    and nf: "negativeFactors (generateExplanation p s a) = negativeFactors (generateExplanation p s' a')"
    by (simp_all add: generateExplanation_lists)
  have l: "''Loan amount too high relative to income'' \<in> set (negativeFactors (generateExplanation p s a))
        \<and> last (negativeFactors (generateExplanation p s a))
            = ''Loan amount too high relative to income''"
    if "calculateLoanToIncomeRatio p > 4"
    using that by (simp add: generateExplanation_lists analyze_loan_amount_high)
  have fa: "final_reason True
          = lit (check_mark @ '' Loan APPROVED - Credit score meets minimum requirements'')"
    and fd: "final_reason False
          = lit (cross_mark @ '' Loan DENIED - Credit score below minimum threshold (580)'')"
    by (simp_all add: final_reason_def)
  have A: "a \<longrightarrow> hd (reasons (generateExplanation p s a))
          = lit (check_mark @ '' Loan APPROVED - Credit score meets minimum requirements'')
        \<and> mentions (hd (reasons (generateExplanation p s a))) ''APPROVED''"
    using h fa final_reason_mentions(1) by auto
  have D: "\<not> a \<longrightarrow> hd (reasons (generateExplanation p s a))
          = lit (cross_mark @ '' Loan DENIED - Credit score below minimum threshold (580)'')
        \<and> mentions (hd (reasons (generateExplanation p s a))) ''DENIED''
        \<and> mentions (hd (reasons (generateExplanation p s a))) ''580''"
    using h fd final_reason_mentions(3,4) by auto
  from lists n A D t pf nf l show ?thesis by blast
qed

theorem explanation_summary_first_witness:
  "calculateLoanToIncomeRatio (scenario1\<lparr>requestedLoanAmount := 300000\<rparr>) > 4
   \<and> ''Loan amount too high relative to income''
        \<in> set (negativeFactors (generateExplanation (scenario1\<lparr>requestedLoanAmount := 300000\<rparr>) 500 False))
   \<and> mentions (hd (reasons (generateExplanation (scenario1\<lparr>requestedLoanAmount := 300000\<rparr>) 500 False))) ''580''
   \<and> mentions (hd (reasons (generateExplanation scenario1 600 True))) ''APPROVED''
   \<and> positiveFactors (generateExplanation (scenario1\<lparr>requestedLoanAmount := 300000\<rparr>) 500 False)
       = [''Adequate income level'', ''Stable employment history'',
          ''Excellent savings discipline'', ''Optimal age range for borrowing'']
   \<and> negativeFactors (generateExplanation (scenario1\<lparr>requestedLoanAmount := 300000\<rparr>) 500 False)
       = [''Very high debt burden'', ''Loan amount too high relative to income'']"
proof -
  let ?p = "scenario1\<lparr>requestedLoanAmount := 300000\<rparr>"
  have r: "calculateLoanToIncomeRatio ?p > 4"
    by code_simp
  have d: "\<not> calculateDTI ?p < 50"
    by code_simp
  have e: "getEmploymentStabilityScore ?p > 70"
    by code_simp
  have v: "calculateSavingsRate ?p > 20"
    by code_simp
  have i: "monthlyIncome ?p = 5000" "age ?p = 35"
    by (simp_all add: scenario1_def)
  note t = explanation_summary_first
      [where p = ?p and s = 500 and a = False and s' = 500 and a' = False]
  note u = explanation_summary_first
      [where p = scenario1 and s = 600 and a = True and s' = 600 and a' = True]
  have pos: "positiveFactors (generateExplanation ?p 500 False)
       = [''Adequate income level'', ''Stable employment history'',
          ''Excellent savings discipline'', ''Optimal age range for borrowing'']"
    using t r d e v i
    by (simp add: analyze_dti_def analyze_income_def analyze_employment_def
        analyze_savings_def analyze_age_def analyze_loan_amount_def push_reason_def
        push_positive_def push_negative_def empty_explanation_def Let_def)
  have neg: "negativeFactors (generateExplanation ?p 500 False)
       = [''Very high debt burden'', ''Loan amount too high relative to income'']"
    using t r d e v i
    by (simp add: analyze_dti_def analyze_income_def analyze_employment_def
        analyze_savings_def analyze_age_def analyze_loan_amount_def push_reason_def
        push_positive_def push_negative_def empty_explanation_def Let_def)
  from r t u pos neg show ?thesis by blast
qed

section \<open>Rates and amounts\<close>



section \<open>Effects on the calculator\<close>

lemma setStrategy_twice: "setStrategy (setStrategy this s) s' = setStrategy this s'"
  by (simp add: setStrategy_def)

text \<open>
  The loop of \<^verbatim>\<open>calculateAllScores\<close> installs each strategy of its array in turn and
  never puts the former one back: when it returns, the last one is left installed.
\<close>

lemma forEach_returns:
  assumes "fst (calculateAllScores_forEach ss p results this) = Inr out" "ss \<noteq> []"
  shows "snd (calculateAllScores_forEach ss p results this) = setStrategy this (last ss)"
  using assms
proof (induction ss arbitrary: results this)
  case Nil
  then show ?case by simp
next
  case (Cons s rest)
  let ?this1 = "setStrategy this s"
  from Cons.prems(1) obtain result name where
    r: "fst (calculateScore ?this1 p) = Inr result" and n: "strategy_getName s = Inr name"
    by (auto simp: Let_def split: sum.splits)
  have step: "calculateAllScores_forEach (s # rest) p results this
      = calculateAllScores_forEach rest p (results(name \<mapsto> result)) ?this1"
    by (simp add: Let_def r n calculateScore_frame)
  show ?case
  proof (cases "rest = []")
    case True
    then show ?thesis unfolding step by simp
  next
    case False
    from Cons.prems(1)
    have "fst (calculateAllScores_forEach rest p (results(name \<mapsto> result)) ?this1) = Inr out"
      unfolding step .
    from Cons.IH [OF this False]
    have ih: "snd (calculateAllScores_forEach rest p (results(name \<mapsto> result)) ?this1)
        = setStrategy ?this1 (last rest)" .
    from False have "last (s # rest) = last rest"
      by simp
    then show ?thesis
      unfolding step ih setStrategy_twice by simp
  qed
qed





end
